theory Spec2Isabelle
  imports Main "HOL-Library.AList"
begin

section \<open>Values, faults and the outside world\<close>

text \<open>
  The program is \<^verbatim>\<open>exchange.py\<close>: a WebSocket server whose command
  \<^verbatim>\<open>exchange [days]\<close> fetches the PrivatBank rates of the last \<open>days\<close> days
  concurrently, sends them back as one JSON document and appends a line to a log file.

  Text is carried as \<open>string\<close>, the UTF-8 encoding of the Python \<^verbatim>\<open>str\<close>; the
  functions that look at characters (\<^verbatim>\<open>split\<close>, \<^verbatim>\<open>int\<close>) decode it. A
  message is a text frame, so its bytes are valid UTF-8.

  A value parsed from JSON (and one handed to \<^verbatim>\<open>json.dumps\<close>) is a \<open>json\<close>:
  \<^verbatim>\<open>None\<close>, a bool, a number, a string, a list or a dict. A dict is the list of
  its items in insertion order. Numbers are only passed through by the program, so their type is
  the parameter \<open>'n\<close>.
\<close>

datatype 'n json =
    JNull
  | JBool bool
  | JNum 'n
  | JStr string
  | JArr "'n json list"
  | JObj "(string \<times> 'n json) list"

text \<open>The exceptions that can leave the functions modelled here.\<close>

datatype fault =
    ValueError
  | OverflowError
  | AttributeError
  | TypeError
  | KeyError
  | ClientError
  | ContentTypeError

text \<open>
  What \<^verbatim>\<open>session.get(url)\<close> brings: the call raises (connection, DNS, timeout), or
  there is a response with a status and with what \<^verbatim>\<open>await response.json()\<close> would
  give (a parsed document, or the exception it raises).
\<close>

datatype 'n http =
    Failed fault
  | Response int "fault + 'n json"

text \<open>
  The effects: the frames written to the connection, the texts written to the log file, and the
  URLs requested from the upstream service in the order in which the requests are started.
\<close>

record world =
  sent :: "string list"
  log_file :: "string list"
  requests :: "string list"

text \<open>
  What the program reads from outside while it handles one message: the date
  \<^verbatim>\<open>datetime.date.today()\<close> as the number of days since 0001-01-01, the text of
  \<^verbatim>\<open>datetime.datetime.now()\<close> at the log call, the upstream service as a function
  of the URL, the order in which the gathered fetches finish (task indices), and the library
  function \<^verbatim>\<open>json.dumps(_, ensure_ascii=False, indent=2)\<close>.
\<close>

record 'n env =
  today :: nat
  now :: string
  upstream :: "string \<Rightarrow> 'n http"
  completion :: "nat list"
  dumps :: "'n json \<Rightarrow> string"

section \<open>Library functions the program calls\<close>

subsection \<open>Characters\<close>

text \<open>
  \<open>chars\<close> cuts a text into its characters, each the list of its bytes (one to four, told by the
  first byte); \<open>code_point\<close> is the number of a character. (Bytes that are not the encoding of
  a character, which valid UTF-8 does not contain, count as U+FFFD.)
\<close>

definition width :: "char \<Rightarrow> nat" where
  "width c =
     (if of_char c < (0xC0 :: nat) then 1
      else if of_char c < (0xE0 :: nat) then 2
      else if of_char c < (0xF0 :: nat) then 3
      else 4)"

fun chars :: "string \<Rightarrow> string list" where
  "chars [] = []"
| "chars (c # cs) = (c # take (width c - 1) cs) # chars (drop (width c - 1) cs)"

definition code_point :: "string \<Rightarrow> nat" where
  "code_point ch =
     (case map of_char ch of
        [a] \<Rightarrow> if a < 0x80 then a else 0xFFFD
      | [a, b] \<Rightarrow> (a - 0xC0) * 0x40 + (b - 0x80)
      | [a, b, c] \<Rightarrow> (a - 0xE0) * 0x1000 + (b - 0x80) * 0x40 + (c - 0x80)
      | [a, b, c, d] \<Rightarrow> (a - 0xF0) * 0x40000 + (b - 0x80) * 0x1000 + (c - 0x80) * 0x40 + (d - 0x80)
      | _ \<Rightarrow> 0xFFFD)"

text \<open>
  The characters for which \<^verbatim>\<open>str.isspace\<close> holds; \<^verbatim>\<open>str.split\<close> separates at
  these.
\<close>

definition isspace :: "string \<Rightarrow> bool" where
  "isspace ch \<longleftrightarrow>
     code_point ch \<in> set
       [0x9, 0xA, 0xB, 0xC, 0xD, 0x1C, 0x1D, 0x1E,
        0x1F, 0x20, 0x85, 0xA0, 0x1680, 0x2000, 0x2001, 0x2002,
        0x2003, 0x2004, 0x2005, 0x2006, 0x2007, 0x2008, 0x2009, 0x200A,
        0x2028, 0x2029, 0x202F, 0x205F, 0x3000]"

text \<open>
  The decimal digits: the code point of the digit zero of every script, the nine that follow it
  being its digits one to nine (Unicode 14.0, the tables of CPython 3.11; a later interpreter
  knows a few scripts more).
\<close>

definition zeros :: "nat list" where
  "zeros =
     [0x30, 0x660, 0x6F0, 0x7C0, 0x966, 0x9E6, 0xA66, 0xAE6,
      0xB66, 0xBE6, 0xC66, 0xCE6, 0xD66, 0xDE6, 0xE50, 0xED0,
      0xF20, 0x1040, 0x1090, 0x17E0, 0x1810, 0x1946, 0x19D0, 0x1A80,
      0x1A90, 0x1B50, 0x1BB0, 0x1C40, 0x1C50, 0xA620, 0xA8D0, 0xA900,
      0xA9D0, 0xA9F0, 0xAA50, 0xABF0, 0xFF10, 0x104A0, 0x10D30, 0x11066,
      0x110F0, 0x11136, 0x111D0, 0x112F0, 0x11450, 0x114D0, 0x11650, 0x116C0,
      0x11730, 0x118E0, 0x11950, 0x11C50, 0x11D50, 0x11DA0, 0x16A60, 0x16AC0,
      0x16B50, 0x1D7CE, 0x1D7D8, 0x1D7E2, 0x1D7EC, 0x1D7F6, 0x1E140, 0x1E2F0,
      0x1E950, 0x1FBF0]"

definition decimal_value :: "nat \<Rightarrow> nat option" where
  "decimal_value cp =
     (case List.find (\<lambda>z. z \<le> cp \<and> cp < z + 10) zeros of
        None \<Rightarrow> None
      | Some z \<Rightarrow> Some (cp - z))"

subsection \<open>\<^verbatim>\<open>str\<close> methods, \<^verbatim>\<open>int\<close> and \<^verbatim>\<open>str\<close> of an integer\<close>

fun startswith :: "string \<Rightarrow> string \<Rightarrow> bool" where
  "startswith s [] = True"
| "startswith [] (p # ps) = False"
| "startswith (c # cs) (p # ps) = (c = p \<and> startswith cs ps)"

text \<open>
  \<^verbatim>\<open>s.split()\<close>: the maximal runs of non-whitespace characters, in order.
  \<open>split_from cur chs\<close> has read the token \<open>cur\<close> so far and has the characters \<open>chs\<close>
  left.
\<close>

fun split_from :: "string \<Rightarrow> string list \<Rightarrow> string list" where
  "split_from cur [] = (if cur = [] then [] else [cur])"
| "split_from cur (ch # chs) =
     (if isspace ch then (if cur = [] then split_from [] chs else cur # split_from [] chs)
      else split_from (cur @ ch) chs)"

definition py_split :: "string \<Rightarrow> string list" where
  "py_split s = split_from [] (chars s)"

text \<open>
  \<^verbatim>\<open>int(s)\<close> first rewrites the text in ASCII: a character below 127 stays, any other
  whitespace becomes a blank, any other decimal digit becomes its ASCII digit, and the text ends
  with a question mark at the first character that is none of these.
\<close>

definition digit_char :: "nat \<Rightarrow> char" where
  "digit_char n = ''0123456789'' ! (n mod 10)"

fun to_ascii :: "string list \<Rightarrow> string" where
  "to_ascii [] = []"
| "to_ascii (ch # chs) =
     (if code_point ch < 127 then ch @ to_ascii chs
      else if isspace ch then CHR '' '' # to_ascii chs
      else (case decimal_value (code_point ch) of
              None \<Rightarrow> ''?''
            | Some v \<Rightarrow> digit_char v # to_ascii chs))"

text \<open>The whitespace that the parser of the ASCII text skips at both ends.\<close>

definition ascii_space :: "char \<Rightarrow> bool" where
  "ascii_space c \<longleftrightarrow> c \<in> set [CHR 0x09, CHR 0x0A, CHR 0x0B, CHR 0x0C, CHR 0x0D, CHR 0x20]"

definition strip :: "string \<Rightarrow> string" where
  "strip s = rev (dropWhile ascii_space (rev (dropWhile ascii_space s)))"

definition isdigit :: "char \<Rightarrow> bool" where
  "isdigit c \<longleftrightarrow> c \<in> set ''0123456789''"

text \<open>
  The digits of a decimal literal: it starts and ends with a digit, and an underscore stands
  only between two digits.
\<close>

fun digits_ok :: "string \<Rightarrow> bool" where
  "digits_ok [] = False"
| "digits_ok [c] = isdigit c"
| "digits_ok (c # d # rest) =
     (isdigit c \<and> (if d = CHR ''_'' then digits_ok rest else digits_ok (d # rest)))"

definition digit_val :: "char \<Rightarrow> nat" where
  "digit_val c = of_char c - 48"

definition decimal :: "string \<Rightarrow> nat" where
  "decimal ds = foldl (\<lambda>a c. 10 * a + digit_val c) 0 (filter isdigit ds)"

text \<open>
  A literal of more than 4300 digits is refused (the default of
  \<^verbatim>\<open>sys.set_int_max_str_digits\<close>); underscores and the sign do not count.
\<close>

definition literal_ok :: "string \<Rightarrow> bool" where
  "literal_ok ds \<longleftrightarrow> digits_ok ds \<and> length (filter isdigit ds) \<le> 4300"

text \<open>
  \<^verbatim>\<open>int(s)\<close> for a string: whitespace at both ends is dropped, one sign is allowed,
  anything else that is not a decimal literal raises \<^verbatim>\<open>ValueError\<close>.
\<close>

definition py_int :: "string \<Rightarrow> fault + int" where
  "py_int s =
     (case strip (to_ascii (chars s)) of
        [] \<Rightarrow> Inl ValueError
      | c # cs \<Rightarrow>
          if c = CHR ''-'' then (if literal_ok cs then Inr (- int (decimal cs)) else Inl ValueError)
          else if c = CHR ''+'' then (if literal_ok cs then Inr (int (decimal cs)) else Inl ValueError)
          else if literal_ok (c # cs) then Inr (int (decimal (c # cs)))
          else Inl ValueError)"

fun digits_of :: "nat \<Rightarrow> string" where
  "digits_of n = (if n < 10 then [digit_char n] else digits_of (n div 10) @ [digit_char n])"

declare digits_of.simps [simp del]

definition py_str :: "int \<Rightarrow> string" where
  "py_str i = (if i < 0 then CHR ''-'' # digits_of (nat (- i)) else digits_of (nat i))"

subsection \<open>Dates\<close>

text \<open>
  A \<^verbatim>\<open>datetime.date\<close> is the number of days since 0001-01-01 (its ordinal
  minus one). \<^verbatim>\<open>d - timedelta(days=i)\<close> raises \<^verbatim>\<open>OverflowError\<close> when
  the result would lie before 0001-01-01.
\<close>

definition date_minus :: "nat \<Rightarrow> nat \<Rightarrow> fault + nat" where
  "date_minus d i = (if d < i then Inl OverflowError else Inr (d - i))"

text \<open>
  The civil date of a day number, in the proleptic Gregorian calendar. The count is shifted to
  start on 1 March of year 0, so that a leap day ends its year, and cut into eras of 400 years
  (146097 days).
\<close>

definition day_of_era :: "nat \<Rightarrow> nat" where
  "day_of_era n = (n + 306) mod 146097"

definition year_of_era :: "nat \<Rightarrow> nat" where
  "year_of_era doe = (doe - doe div 1460 + doe div 36524 - doe div 146096) div 365"

definition day_of_year :: "nat \<Rightarrow> nat" where
  "day_of_year doe = doe - (365 * year_of_era doe + year_of_era doe div 4 - year_of_era doe div 100)"

text \<open>The month counted from March (0) to February (11), from the day of the shifted year.\<close>

definition march_month :: "nat \<Rightarrow> nat" where
  "march_month doy = (5 * doy + 2) div 153"

definition civil_day :: "nat \<Rightarrow> nat" where
  "civil_day n = day_of_year (day_of_era n) - (153 * march_month (day_of_year (day_of_era n)) + 2) div 5 + 1"

definition civil_month :: "nat \<Rightarrow> nat" where
  "civil_month n =
     (if march_month (day_of_year (day_of_era n)) < 10
      then march_month (day_of_year (day_of_era n)) + 3
      else march_month (day_of_year (day_of_era n)) - 9)"

definition civil_year :: "nat \<Rightarrow> nat" where
  "civil_year n =
     year_of_era (day_of_era n) + ((n + 306) div 146097) * 400 + (if civil_month n \<le> 2 then 1 else 0)"

definition pad2 :: "nat \<Rightarrow> string" where
  "pad2 n = [digit_char (n div 10), digit_char n]"

definition pad4 :: "nat \<Rightarrow> string" where
  "pad4 n = [digit_char (n div 1000), digit_char (n div 100), digit_char (n div 10), digit_char n]"

text \<open>\<^verbatim>\<open>date.strftime("%d.%m.%Y")\<close>.\<close>

definition strftime :: "nat \<Rightarrow> string" where
  "strftime date =
     pad2 (civil_day date) @ ''.'' @ pad2 (civil_month date) @ ''.'' @ pad4 (civil_year date)"

subsection \<open>Dicts, subscripts and iteration on parsed JSON\<close>

text \<open>\<^verbatim>\<open>v.get(k, dflt)\<close>: only a dict has the method.\<close>

fun py_get :: "'n json \<Rightarrow> string \<Rightarrow> 'n json \<Rightarrow> fault + 'n json" where
  "py_get (JObj kvs) k dflt = Inr (case map_of kvs k of None \<Rightarrow> dflt | Some v \<Rightarrow> v)"
| "py_get _ k dflt = Inl AttributeError"

text \<open>\<^verbatim>\<open>v[k]\<close> for a string \<open>k\<close>: a missing key of a dict raises
  \<^verbatim>\<open>KeyError\<close>, any other value refuses a string subscript.\<close>

fun getitem :: "'n json \<Rightarrow> string \<Rightarrow> fault + 'n json" where
  "getitem (JObj kvs) k = (case map_of kvs k of None \<Rightarrow> Inl KeyError | Some v \<Rightarrow> Inr v)"
| "getitem _ k = Inl TypeError"

text \<open>\<^verbatim>\<open>for x in v\<close>: the items of a list, the keys of a dict, the characters
  of a string; nothing else is iterable.\<close>

fun py_iter :: "'n json \<Rightarrow> fault + 'n json list" where
  "py_iter (JArr xs) = Inr xs"
| "py_iter (JObj kvs) = Inr (map (\<lambda>kv. JStr (fst kv)) kvs)"
| "py_iter (JStr s) = Inr (map JStr (chars s))"
| "py_iter _ = Inl TypeError"

text \<open>\<^verbatim>\<open>v in currencies\<close> for a list of strings: equality with one of them.\<close>

fun contains :: "string list \<Rightarrow> 'n json \<Rightarrow> bool" where
  "contains currencies (JStr s) = (s \<in> set currencies)"
| "contains currencies _ = False"

fun is_dict :: "'n json \<Rightarrow> bool" where
  "is_dict (JObj kvs) = True"
| "is_dict _ = False"

subsection \<open>\<^verbatim>\<open>asyncio.gather\<close>\<close>

text \<open>
  A coroutine is a function from the world to its outcome and the world after it. The first
  \<open>Inl\<close> of a list in index order, or all its values:
\<close>

fun collect :: "(fault + 'a) list \<Rightarrow> fault + 'a list" where
  "collect [] = Inr []"
| "collect (Inl e # rest) = Inl e"
| "collect (Inr v # rest) = (case collect rest of Inl e \<Rightarrow> Inl e | Inr vs \<Rightarrow> Inr (v # vs))"

fun run_tasks :: "(world \<Rightarrow> 'a \<times> world) list \<Rightarrow> world \<Rightarrow> 'a list \<times> world" where
  "run_tasks [] w = ([], w)"
| "run_tasks (t # ts) w =
     (case t w of (r, w1) \<Rightarrow> (case run_tasks ts w1 of (rs, w2) \<Rightarrow> (r # rs, w2)))"

text \<open>The exception of the task that is first to finish with one, \<open>order\<close> being the
  order in which the tasks finish (a list of task indices).\<close>

fun first_raised :: "(fault + 'a) list \<Rightarrow> nat list \<Rightarrow> fault option" where
  "first_raised outs [] = None"
| "first_raised outs (i # order) =
     (if i < length outs then
        (case outs ! i of Inl e \<Rightarrow> Some e | Inr v \<Rightarrow> first_raised outs order)
      else first_raised outs order)"

text \<open>
  \<^verbatim>\<open>await asyncio.gather(*tasks)\<close>: every task is started (in the order of the
  arguments) and runs to its end; the first exception to occur is propagated to the caller;
  when there is none the result is the list of the tasks' values in the order of the arguments.
  (Should \<open>order\<close> leave out a task that raises, the exception is the first in the order of
  the arguments.)
\<close>

definition gather ::
  "(world \<Rightarrow> (fault + 'a) \<times> world) list \<Rightarrow> nat list \<Rightarrow> world \<Rightarrow> (fault + 'a list) \<times> world" where
  "gather tasks order w =
     (case run_tasks tasks w of
        (outs, w') \<Rightarrow>
          ((case first_raised outs order of Some e \<Rightarrow> Inl e | None \<Rightarrow> collect outs), w'))"

section \<open>The program\<close>

subsection \<open>\<^verbatim>\<open>ExchangeRateFetcher\<close>\<close>

definition BASE_URL :: string where
  "BASE_URL = ''https://api.privatbank.ua/p24api/exchange_rates''"

text \<open>
  The dict comprehension of lines 25 to 27. \<open>rate_step\<close> is one round of it: the
  condition on the record, then the key and the value, then the entry is stored in the dict
  \<open>rates\<close> built so far (a key that is there already keeps its place and gets the new value).
\<close>

definition rate_step ::
  "string list \<Rightarrow> 'n json \<Rightarrow> (string \<times> 'n json) list \<Rightarrow> fault + (string \<times> 'n json) list" where
  "rate_step currencies rate rates =
     (case py_get rate ''currency'' JNull of
        Inl e \<Rightarrow> Inl e
      | Inr cur \<Rightarrow>
          if contains currencies cur then
            (case getitem rate ''currency'' of
               Inl e \<Rightarrow> Inl e
             | Inr key \<Rightarrow>
                 (case py_get rate ''saleRate'' JNull of
                    Inl e \<Rightarrow> Inl e
                  | Inr sale \<Rightarrow>
                      (case py_get rate ''purchaseRate'' JNull of
                         Inl e \<Rightarrow> Inl e
                       | Inr purchase \<Rightarrow>
                           (case key of
                              JStr k \<Rightarrow>
                                Inr (AList.update k (JObj [(''sale'', sale), (''purchase'', purchase)]) rates)
                            | _ \<Rightarrow> Inl TypeError))))
          else Inr rates)"

fun rates_loop ::
  "string list \<Rightarrow> 'n json list \<Rightarrow> (string \<times> 'n json) list \<Rightarrow> fault + (string \<times> 'n json) list" where
  "rates_loop currencies [] rates = Inr rates"
| "rates_loop currencies (rate # rest) rates =
     (case rate_step currencies rate rates of
        Inl e \<Rightarrow> Inl e
      | Inr rates' \<Rightarrow> rates_loop currencies rest rates')"

text \<open>What the comprehension iterates over: \<^verbatim>\<open>data.get("exchangeRate", [])\<close>.\<close>

definition exchange_records :: "'n json \<Rightarrow> fault + 'n json list" where
  "exchange_records data =
     (case py_get data ''exchangeRate'' (JArr []) of
        Inl e \<Rightarrow> Inl e
      | Inr records \<Rightarrow> py_iter records)"

definition rates_of :: "'n json \<Rightarrow> string list \<Rightarrow> fault + (string \<times> 'n json) list" where
  "rates_of data currencies =
     (case exchange_records data of
        Inl e \<Rightarrow> Inl e
      | Inr items \<Rightarrow> rates_loop currencies items [])"

definition fetch_rates ::
  "'n env \<Rightarrow> nat \<Rightarrow> string list \<Rightarrow> world \<Rightarrow> (fault + 'n json) \<times> world" where
  "fetch_rates E date currencies w =
     (let formatted_date = strftime date;
          url = BASE_URL @ ''?date='' @ formatted_date;
          w' = w\<lparr>requests := requests w @ [url]\<rparr>
      in case upstream E url of
           Failed e \<Rightarrow> (Inl e, w')
         | Response status body \<Rightarrow>
             if status \<noteq> 200 then
               (Inr (JObj [(''error'', JStr (''HTTP Error '' @ py_str status))]), w')
             else
               (case body of
                  Inl e \<Rightarrow> (Inl e, w')
                | Inr data \<Rightarrow>
                    (case rates_of data currencies of
                       Inl e \<Rightarrow> (Inl e, w')
                     | Inr rates \<Rightarrow> (Inr (JObj [(formatted_date, JObj rates)]), w'))))"

text \<open>The URL that \<^verbatim>\<open>fetch_rates\<close> requests for a date.\<close>

definition request_url :: "nat \<Rightarrow> string" where
  "request_url date = BASE_URL @ ''?date='' @ strftime date"

subsection \<open>\<^verbatim>\<open>Logger\<close> and the connection\<close>

definition Logger_log :: "'n env \<Rightarrow> string \<Rightarrow> world \<Rightarrow> world" where
  "Logger_log E message w =
     w\<lparr>log_file := log_file w @ [now E @ '' - '' @ message @ [CHR 0x0A]]\<rparr>"

definition websocket_send :: "string \<Rightarrow> world \<Rightarrow> world" where
  "websocket_send frame w = w\<lparr>sent := sent w @ [frame]\<rparr>"

subsection \<open>\<^verbatim>\<open>WebSocketServer\<close>\<close>

text \<open>The message of line 62, in UTF-8.\<close>

definition validation_error :: string where
  "validation_error =
     [CHR 0xD0, CHR 0x9E, CHR 0xD1, CHR 0x88, CHR 0xD0, CHR 0xB8, CHR 0xD0, CHR 0xB1,
      CHR 0xD0, CHR 0xBA, CHR 0xD0, CHR 0xB0, CHR 0x3A, CHR 0x20, CHR 0xD0, CHR 0xBA,
      CHR 0xD0, CHR 0xBE, CHR 0xD0, CHR 0xBB, CHR 0xD0, CHR 0xB8, CHR 0xD1, CHR 0x87,
      CHR 0xD0, CHR 0xB5, CHR 0xD1, CHR 0x81, CHR 0xD1, CHR 0x82, CHR 0xD0, CHR 0xB2,
      CHR 0xD0, CHR 0xBE, CHR 0x20, CHR 0xD0, CHR 0xB4, CHR 0xD0, CHR 0xBD, CHR 0xD0,
      CHR 0xB5, CHR 0xD0, CHR 0xB9, CHR 0x20, CHR 0xD0, CHR 0xB4, CHR 0xD0, CHR 0xBE,
      CHR 0xD0, CHR 0xBB, CHR 0xD0, CHR 0xB6, CHR 0xD0, CHR 0xBD, CHR 0xD0, CHR 0xBE,
      CHR 0x20, CHR 0xD0, CHR 0xB1, CHR 0xD1, CHR 0x8B, CHR 0xD1, CHR 0x82, CHR 0xD1,
      CHR 0x8C, CHR 0x20, CHR 0xD0, CHR 0xBE, CHR 0xD1, CHR 0x82, CHR 0x20, CHR 0x31,
      CHR 0x20, CHR 0xD0, CHR 0xB4, CHR 0xD0, CHR 0xBE, CHR 0x20, CHR 0x31, CHR 0x30,
      CHR 0x2E]"

text \<open>Lines 57 and 58: the day count of a message.\<close>

definition parse_days :: "string \<Rightarrow> fault + int" where
  "parse_days message =
     (let parts = py_split message in
      if length parts > 1 then py_int (parts ! 1) else Inr 1)"

text \<open>
  \<^verbatim>\<open>handle_exchange\<close> returns the world after the call and the exception that left
  it, if one did. Sending a frame and writing the log are taken to succeed.
\<close>

definition handle_exchange :: "'n env \<Rightarrow> string \<Rightarrow> world \<Rightarrow> world \<times> fault option" where
  "handle_exchange E message w =
     (case parse_days message of
        Inl e \<Rightarrow> (w, Some e)
      | Inr days \<Rightarrow>
          let currencies = [''USD'', ''EUR''] in
          if days < 1 \<or> days > 10 then
            (let response = validation_error in
             (Logger_log E response (websocket_send response w), None))
          else
            (case collect (map (\<lambda>i. case date_minus (today E) i of
                                       Inl e \<Rightarrow> Inl e
                                     | Inr date \<Rightarrow> Inr (fetch_rates E date currencies))
                               [0..<nat days]) of
               Inl e \<Rightarrow> (w, Some e)
             | Inr tasks \<Rightarrow>
                 (case gather tasks (completion E) w of
                    (Inl e, w1) \<Rightarrow> (w1, Some e)
                  | (Inr results, w1) \<Rightarrow>
                      let response = dumps E (JArr results) in
                      (Logger_log E (''exchange '' @ py_str days @ '': '' @ response)
                         (websocket_send response w1), None))))"

text \<open>
  \<^verbatim>\<open>handle_client\<close>: the loop over the messages of one connection, each with the
  outside as it is when the message arrives. An exception ends the loop.
\<close>

fun handle_client :: "('n env \<times> string) list \<Rightarrow> world \<Rightarrow> world \<times> fault option" where
  "handle_client [] w = (w, None)"
| "handle_client ((E, message) # rest) w =
     (if startswith message ''exchange'' then
        (case handle_exchange E message w of
           (w', Some e) \<Rightarrow> (w', Some e)
         | (w', None) \<Rightarrow> handle_client rest w')
      else handle_client rest w)"

section \<open>Tokens, and sample inputs\<close>

text \<open>The first whitespace-delimited token of a message, if it has one.\<close>

definition first_token :: "string \<Rightarrow> string option" where
  "first_token message = (case py_split message of [] \<Rightarrow> None | t # ts \<Rightarrow> Some t)"

text \<open>
  A connection on 3 November 2026. The service has a document for that day, answers 404 for the
  day before and cannot be reached for the day before that; for any other day its document is
  empty. The serialiser of the samples is a compact rendering (ending every item with a comma); no
  statement below depends on what the serialiser writes.
\<close>

definition fresh_world :: world where
  "fresh_world = \<lparr>sent = [], log_file = [], requests = []\<rparr>"

fun render :: "int json \<Rightarrow> string" where
  "render JNull = ''null''"
| "render (JBool b) = (if b then ''true'' else ''false'')"
| "render (JNum n) = py_str n"
| "render (JStr s) = [CHR 0x22] @ s @ [CHR 0x22]"
| "render (JArr xs) = ''['' @ concat (map (\<lambda>x. render x @ '','') xs) @ '']''"
| "render (JObj kvs) =
     ''{'' @ concat (map (\<lambda>(k, v). [CHR 0x22] @ k @ [CHR 0x22] @ '':'' @ render v @ '','') kvs) @ ''}''"

definition sample_payload :: "int json" where
  "sample_payload =
     JObj [(''date'', JStr ''03.11.2026''),
           (''bank'', JStr ''PB''),
           (''exchangeRate'',
            JArr [JObj [(''baseCurrency'', JStr ''UAH''), (''currency'', JStr ''USD''),
                        (''saleRate'', JNum 42), (''purchaseRate'', JNum 41)],
                  JObj [(''baseCurrency'', JStr ''UAH''), (''currency'', JStr ''GBP''),
                        (''saleRate'', JNum 55), (''purchaseRate'', JNum 54)],
                  JObj [(''baseCurrency'', JStr ''UAH'')],
                  JObj [(''baseCurrency'', JStr ''UAH''), (''currency'', JStr ''EUR''),
                        (''purchaseRate'', JNum 47)]])]"

definition sample_upstream :: "string \<Rightarrow> int http" where
  "sample_upstream url =
     (if url = BASE_URL @ ''?date=03.11.2026'' then Response 200 (Inr sample_payload)
      else if url = BASE_URL @ ''?date=02.11.2026'' then Response 404 (Inl ContentTypeError)
      else if url = BASE_URL @ ''?date=01.11.2026'' then Failed ClientError
      else Response 200 (Inr (JObj [])))"

definition sample_env :: "int env" where
  "sample_env =
     \<lparr>today = 739922, now = ''2026-11-03 12:00:00.000000'', upstream = sample_upstream,
      completion = [1, 0, 2], dumps = render\<rparr>"

definition day0 :: "int json" where
  "day0 = JObj [(''03.11.2026'',
                 JObj [(''USD'', JObj [(''sale'', JNum 42), (''purchase'', JNum 41)]),
                       (''EUR'', JObj [(''sale'', JNull), (''purchase'', JNum 47)])])]"

definition day1 :: "int json" where
  "day1 = JObj [(''error'', JStr ''HTTP Error 404'')]"

text \<open>
  Two messages with a no-break space (U+00A0, the bytes C2 A0): one where it follows the blank
  after the command, one where it stands between the command and a 2.
\<close>

definition exchange_nbsp :: string where
  "exchange_nbsp = ''exchange '' @ [CHR 0xC2, CHR 0xA0]"

definition exchange_nbsp_2 :: string where
  "exchange_nbsp_2 = ''exchange'' @ [CHR 0xC2, CHR 0xA0] @ ''2''"

text \<open>A second service, whose document is the sample without the record that has no currency.\<close>

definition trimmed_payload :: "int json" where
  "trimmed_payload =
     JObj [(''date'', JStr ''03.11.2026''),
           (''bank'', JStr ''PB''),
           (''exchangeRate'',
            JArr [JObj [(''baseCurrency'', JStr ''UAH''), (''currency'', JStr ''USD''),
                        (''saleRate'', JNum 42), (''purchaseRate'', JNum 41)],
                  JObj [(''baseCurrency'', JStr ''UAH''), (''currency'', JStr ''GBP''),
                        (''saleRate'', JNum 55), (''purchaseRate'', JNum 54)],
                  JObj [(''baseCurrency'', JStr ''UAH''), (''currency'', JStr ''EUR''),
                        (''purchaseRate'', JNum 47)]])]"

definition trimmed_upstream :: "string \<Rightarrow> int http" where
  "trimmed_upstream url = Response 200 (Inr trimmed_payload)"

definition trimmed_env :: "int env" where
  "trimmed_env = sample_env\<lparr>upstream := trimmed_upstream\<rparr>"

text \<open>A third service, which answers 503 whatever is asked.\<close>

definition unavailable_upstream :: "string \<Rightarrow> int http" where
  "unavailable_upstream url = Response 503 (Inl ContentTypeError)"

definition unavailable_env :: "int env" where
  "unavailable_env = sample_env\<lparr>upstream := unavailable_upstream\<rparr>"

section \<open>The fetches of a command\<close>

lemma fetch_rates_world:
  "fetch_rates E d c w = (fst (fetch_rates E d c w'), w\<lparr>requests := requests w @ [request_url d]\<rparr>)"
  by (simp add: fetch_rates_def request_url_def Let_def split: http.splits sum.splits)

lemma run_tasks_fetch:
  "run_tasks (map (\<lambda>d. fetch_rates E d c) ds) w =
     (map (\<lambda>d. fst (fetch_rates E d c w0)) ds, w\<lparr>requests := requests w @ map request_url ds\<rparr>)"
proof (induction ds arbitrary: w)
  case Nil
  show ?case by simp
next
  case (Cons d ds)
  have step: "fetch_rates E d c w = (fst (fetch_rates E d c w0), w\<lparr>requests := requests w @ [request_url d]\<rparr>)"
    by (rule fetch_rates_world)
  show ?case by (simp add: step Cons.IH)
qed

lemma collect_Inr: "collect (map (\<lambda>x. Inr (g x)) xs) = Inr (map g xs)"
  by (induction xs) simp_all

lemma collect_Inl: "Inl e \<in> set outs \<Longrightarrow> \<exists>e'. collect outs = Inl e'"
proof (induction outs)
  case Nil
  then show ?case by simp
next
  case (Cons out outs)
  show ?case
  proof (cases out)
    case (Inl a)
    then show ?thesis by simp
  next
    case (Inr v)
    with Cons.prems have "Inl e \<in> set outs" by auto
    then obtain e' where "collect outs = Inl e'" using Cons.IH by blast
    with Inr show ?thesis by simp
  qed
qed

lemma first_raised_Inr: "first_raised (map (\<lambda>x. Inr (g x)) xs) order = None"
  by (induction order) simp_all

lemma task_dates:
  assumes "n \<le> Suc t"
  shows "collect (map (\<lambda>i. case date_minus t i of Inl e \<Rightarrow> Inl e | Inr date \<Rightarrow> Inr (f date)) [0..<n])
         = Inr (map (\<lambda>i. f (t - i)) [0..<n])"
proof -
  have "map (\<lambda>i. case date_minus t i of Inl e \<Rightarrow> Inl e | Inr date \<Rightarrow> Inr (f date)) [0..<n]
        = map (\<lambda>i. Inr (f (t - i))) [0..<n]"
    using assms by (intro map_cong) (auto simp: date_minus_def)
  then show ?thesis by (simp only: collect_Inr)
qed

lemma task_dates_overflow:
  assumes "Suc t < n"
  shows "\<exists>e. collect (map (\<lambda>i. case date_minus t i of Inl e \<Rightarrow> Inl e | Inr date \<Rightarrow> Inr (f date)) [0..<n])
         = Inl e"
proof -
  let ?task = "\<lambda>i. case date_minus t i of Inl e \<Rightarrow> Inl e | Inr date \<Rightarrow> Inr (f date)"
  have "Suc t \<in> set [0..<n]" using assms by simp
  then have "?task (Suc t) \<in> ?task ` set [0..<n]" by (rule imageI)
  moreover have "?task (Suc t) = Inl OverflowError" by (simp add: date_minus_def)
  ultimately have "Inl OverflowError \<in> set (map ?task [0..<n])" by (simp only: set_map)
  then show ?thesis by (rule collect_Inl)
qed

text \<open>The outcomes of the fetches of a command, by index.\<close>

lemma gather_fetches:
  "gather (map (\<lambda>i. fetch_rates E (t - i) c) [0..<n]) order w =
     ((case first_raised (map (\<lambda>i. fst (fetch_rates E (t - i) c w)) [0..<n]) order of
         Some e \<Rightarrow> Inl e
       | None \<Rightarrow> collect (map (\<lambda>i. fst (fetch_rates E (t - i) c w)) [0..<n])),
      w\<lparr>requests := requests w @ map (\<lambda>i. request_url (t - i)) [0..<n]\<rparr>)"
proof -
  have "run_tasks (map (\<lambda>d. fetch_rates E d c) (map (\<lambda>i. t - i) [0..<n])) w =
     (map (\<lambda>d. fst (fetch_rates E d c w)) (map (\<lambda>i. t - i) [0..<n]),
      w\<lparr>requests := requests w @ map request_url (map (\<lambda>i. t - i) [0..<n])\<rparr>)"
    by (rule run_tasks_fetch)
  then show ?thesis by (simp add: gather_def comp_def)
qed

lemma handle_exchange_invalid:
  assumes "parse_days message = Inr days" and "days < 1 \<or> days > 10"
  shows "handle_exchange E message w =
           (w\<lparr>sent := sent w @ [validation_error],
              log_file := log_file w @ [now E @ '' - '' @ validation_error @ [CHR 0x0A]]\<rparr>, None)"
  using assms by (auto simp add: handle_exchange_def Logger_log_def websocket_send_def)

lemma handle_exchange_fetches:
  assumes "parse_days message = Inr days" and "1 \<le> days" and "days \<le> 10"
    and "nat days \<le> Suc (today E)"
  shows "handle_exchange E message w =
     (case (case first_raised (map (\<lambda>i. fst (fetch_rates E (today E - i) [''USD'', ''EUR''] w)) [0..<nat days])
                   (completion E) of
              Some e \<Rightarrow> Inl e
            | None \<Rightarrow> collect (map (\<lambda>i. fst (fetch_rates E (today E - i) [''USD'', ''EUR''] w)) [0..<nat days])) of
        Inl e \<Rightarrow> (w\<lparr>requests := requests w @ map (\<lambda>i. request_url (today E - i)) [0..<nat days]\<rparr>, Some e)
      | Inr results \<Rightarrow>
          (w\<lparr>sent := sent w @ [dumps E (JArr results)],
             log_file := log_file w @
               [now E @ '' - '' @ (''exchange '' @ py_str days @ '': '' @ dumps E (JArr results)) @ [CHR 0x0A]],
             requests := requests w @ map (\<lambda>i. request_url (today E - i)) [0..<nat days]\<rparr>, None))"
proof -
  have range: "\<not> (days < 1 \<or> days > 10)" using assms(2,3) by simp
  show ?thesis
    unfolding handle_exchange_def Let_def
    by (simp only: assms(1) sum.case range if_False task_dates[OF assms(4)] gather_fetches)
       (simp add: Logger_log_def websocket_send_def split: sum.splits)
qed

lemma fetch_rates_completion:
  "fetch_rates (E\<lparr>completion := order\<rparr>) d c w = fetch_rates E d c w"
  by (simp add: fetch_rates_def)

lemma handle_exchange_results:
  assumes "parse_days message = Inr days" and "1 \<le> days" and "days \<le> 10"
    and "nat days \<le> Suc (today E)"
    and "\<forall>i<nat days. fst (fetch_rates E (today E - i) [''USD'', ''EUR''] w) = Inr (g i)"
  shows "handle_exchange E message w =
          (w\<lparr>sent := sent w @ [dumps E (JArr (map g [0..<nat days]))],
             log_file := log_file w @
               [now E @ '' - '' @ (''exchange '' @ py_str days @ '': '' @ dumps E (JArr (map g [0..<nat days])))
                  @ [CHR 0x0A]],
             requests := requests w @ map (\<lambda>i. request_url (today E - i)) [0..<nat days]\<rparr>, None)"
proof -
  have outs: "map (\<lambda>i. fst (fetch_rates E (today E - i) [''USD'', ''EUR''] w)) [0..<nat days]
              = map (\<lambda>i. Inr (g i)) [0..<nat days]"
    using assms(5) by (intro map_cong) auto
  show ?thesis
    by (simp only: handle_exchange_fetches[OF assms(1-4)] outs first_raised_Inr collect_Inr
          option.case sum.case)
qed




lemma first_raised_single:
  "(case first_raised [out] order of Some e \<Rightarrow> Inl e | None \<Rightarrow> collect [out]) =
   (case out of Inl e \<Rightarrow> Inl e | Inr r \<Rightarrow> Inr [r])"
  by (induction order) (auto split: sum.splits)

lemma py_int_fault: "py_int s = Inl e \<Longrightarrow> e = ValueError"
  by (auto simp: py_int_def split: list.splits if_splits)

lemma handle_exchange_parse_fault:
  "parse_days message = Inl e \<Longrightarrow> handle_exchange E message w = (w, Some e)"
  by (simp add: handle_exchange_def)

lemma handle_exchange_overflow:
  assumes "parse_days message = Inr days" and "1 \<le> days" and "days \<le> 10"
    and "Suc (today E) < nat days"
  shows "\<exists>e. handle_exchange E message w = (w, Some e)"
proof -
  have range: "\<not> (days < 1 \<or> days > 10)" using assms(2,3) by simp
  from task_dates_overflow[OF assms(4), where f = "\<lambda>date. fetch_rates E date [''USD'', ''EUR'']"]
  obtain e where
    "collect (map (\<lambda>i. case date_minus (today E) i of Inl e \<Rightarrow> Inl e
                       | Inr date \<Rightarrow> Inr (fetch_rates E date [''USD'', ''EUR''])) [0..<nat days]) = Inl e"
    by blast
  then have "handle_exchange E message w = (w, Some e)"
    unfolding handle_exchange_def Let_def
    by (simp only: assms(1) sum.case range if_False)
  then show ?thesis by blast
qed

text \<open>A call that raises has sent and logged nothing; a call that returns has sent one frame and
  logged one text.\<close>

lemma handle_exchange_effects:
  assumes "handle_exchange E message w = (w', r)"
  shows "if r = None
         then (\<exists>frame line. sent w' = sent w @ [frame] \<and> log_file w' = log_file w @ [line])
         else sent w' = sent w \<and> log_file w' = log_file w"
proof (cases "parse_days message")
  case (Inl e)
  with assms show ?thesis by (auto simp: handle_exchange_parse_fault)
next
  case (Inr days)
  show ?thesis
  proof (cases "days < 1 \<or> days > 10")
    case True
    with assms Inr show ?thesis by (auto simp: handle_exchange_invalid)
  next
    case False
    then have d: "1 \<le> days" "days \<le> 10" by simp_all
    show ?thesis
    proof (cases "nat days \<le> Suc (today E)")
      case True
      show ?thesis
        using assms unfolding handle_exchange_fetches[OF Inr d True]
        by (auto split: sum.splits option.splits)
    next
      case False
      then have "Suc (today E) < nat days" by simp
      from handle_exchange_overflow[OF Inr d this, of w] assms show ?thesis by auto
    qed
  qed
qed

lemma handle_client_append:
  "handle_client (before @ rest) w =
     (case handle_client before w of
        (w1, Some e) \<Rightarrow> (w1, Some e)
      | (w1, None) \<Rightarrow> handle_client rest w1)"
proof (induction before arbitrary: w)
  case Nil
  show ?case by simp
next
  case (Cons m before)
  obtain E message where m: "m = (E, message)" by (cases m)
  show ?case
    by (cases "handle_exchange E message w")
       (auto simp: m Cons.IH split: option.splits prod.splits)
qed

section \<open>Parsing and the rates dict\<close>

lemmas text_defs = py_split_def width_def code_point_def isspace_def py_int_def strip_def
  ascii_space_def isdigit_def literal_ok_def decimal_def digit_val_def py_str_def digits_of.simps
  digit_char_def parse_days_def

lemma parse_exchange_days:
  assumes "1 \<le> days" and "days \<le> 10"
  shows "parse_days (''exchange '' @ py_str days) = Inr days"
proof -
  have "days = 1 \<or> days = 2 \<or> days = 3 \<or> days = 4 \<or> days = 5 \<or> days = 6 \<or> days = 7 \<or> days = 8
        \<or> days = 9 \<or> days = 10"
    using assms by arith
  then show ?thesis
    by (elim disjE) (simp_all add: text_defs)
qed

lemma fetch_rates_status:
  assumes "upstream E (request_url d) = Response s body" and "s \<noteq> 200"
  shows "fetch_rates E d c w =
           (Inr (JObj [(''error'', JStr (''HTTP Error '' @ py_str s))]),
            w\<lparr>requests := requests w @ [request_url d]\<rparr>)"
  using assms by (simp add: fetch_rates_def request_url_def)

lemma fetch_rates_ok:
  assumes "upstream E (request_url d) = Response 200 (Inr data)"
  shows "fst (fetch_rates E d c w) =
           (case rates_of data c of
              Inl e \<Rightarrow> Inl e
            | Inr rates \<Rightarrow> Inr (JObj [(strftime d, JObj rates)]))"
  using assms by (simp add: fetch_rates_def request_url_def Let_def split: sum.splits)

lemma strftime_not_error: "strftime d \<noteq> ''error''"
  by (simp add: strftime_def pad2_def)

lemma set_update_subset: "set (AList.update k v al) \<subseteq> insert (k, v) (set al)"
  by (induction al) auto

lemma rate_step_sound:
  assumes "rate_step c rate rates = Inr rates'" and "(k, v) \<in> set rates'"
  shows "(k, v) \<in> set rates \<or>
         (k \<in> set c \<and>
          (\<exists>kvs. rate = JObj kvs \<and> map_of kvs ''currency'' = Some (JStr k) \<and>
             v = JObj [(''sale'', case map_of kvs ''saleRate'' of None \<Rightarrow> JNull | Some x \<Rightarrow> x),
                       (''purchase'', case map_of kvs ''purchaseRate'' of None \<Rightarrow> JNull | Some x \<Rightarrow> x)]))"
proof (cases rate)
  case (JObj kvs)
  show ?thesis
  proof (cases "contains c (case map_of kvs ''currency'' of None \<Rightarrow> JNull | Some x \<Rightarrow> x)")
    case False
    with assms JObj show ?thesis by (simp add: rate_step_def)
  next
    case True
    then obtain cur where cur: "map_of kvs ''currency'' = Some (JStr cur)" and mem: "cur \<in> set c"
      by (cases "map_of kvs ''currency''"; cases "the (map_of kvs ''currency'')")
         auto
    let ?entry = "JObj [(''sale'', case map_of kvs ''saleRate'' of None \<Rightarrow> JNull | Some x \<Rightarrow> x),
                       (''purchase'', case map_of kvs ''purchaseRate'' of None \<Rightarrow> JNull | Some x \<Rightarrow> x)]"
    from assms(1) JObj cur mem have "rates' = AList.update cur ?entry rates"
      by (simp add: rate_step_def)
    with assms(2) set_update_subset[of cur ?entry rates]
    have "(k, v) = (cur, ?entry) \<or> (k, v) \<in> set rates" by auto
    with JObj cur mem show ?thesis by auto
  qed
qed (use assms in \<open>simp_all add: rate_step_def\<close>)

lemma rates_loop_sound:
  assumes "rates_loop c items rates = Inr rates'" and "(k, v) \<in> set rates'"
  shows "(k, v) \<in> set rates \<or>
         (k \<in> set c \<and>
          (\<exists>kvs. JObj kvs \<in> set items \<and> map_of kvs ''currency'' = Some (JStr k) \<and>
             v = JObj [(''sale'', case map_of kvs ''saleRate'' of None \<Rightarrow> JNull | Some x \<Rightarrow> x),
                       (''purchase'', case map_of kvs ''purchaseRate'' of None \<Rightarrow> JNull | Some x \<Rightarrow> x)]))"
  using assms
proof (induction items arbitrary: rates)
  case Nil
  then show ?case by simp
next
  case (Cons rate rest)
  from Cons.prems(1) obtain mid where
    step: "rate_step c rate rates = Inr mid" and loop: "rates_loop c rest mid = Inr rates'"
    by (auto split: sum.splits)
  from Cons.IH[OF loop Cons.prems(2)] show ?case
  proof
    assume "(k, v) \<in> set mid"
    from rate_step_sound[OF step this] show ?thesis by auto
  next
    assume "k \<in> set c \<and>
          (\<exists>kvs. JObj kvs \<in> set rest \<and> map_of kvs ''currency'' = Some (JStr k) \<and>
             v = JObj [(''sale'', case map_of kvs ''saleRate'' of None \<Rightarrow> JNull | Some x \<Rightarrow> x),
                       (''purchase'', case map_of kvs ''purchaseRate'' of None \<Rightarrow> JNull | Some x \<Rightarrow> x)])"
    then show ?thesis by auto
  qed
qed

lemma rate_step_distinct:
  "rate_step c rate rates = Inr rates' \<Longrightarrow> distinct (map fst rates) \<Longrightarrow> distinct (map fst rates')"
  by (auto simp: rate_step_def distinct_update split: sum.splits if_splits json.splits)

lemma rates_loop_distinct:
  "rates_loop c items rates = Inr rates' \<Longrightarrow> distinct (map fst rates) \<Longrightarrow> distinct (map fst rates')"
proof (induction items arbitrary: rates)
  case Nil
  then show ?case by simp
next
  case (Cons rate rest)
  from Cons.prems(1) obtain mid where
    step: "rate_step c rate rates = Inr mid" and loop: "rates_loop c rest mid = Inr rates'"
    by (auto split: sum.splits)
  from Cons.IH[OF loop rate_step_distinct[OF step Cons.prems(2)]] show ?case .
qed

lemma rate_step_no_KeyError: "rate_step c rate rates \<noteq> Inl KeyError"
proof (cases rate)
  case (JObj kvs)
  show ?thesis
  proof (cases "map_of kvs ''currency''")
    case None
    with JObj show ?thesis by (simp add: rate_step_def)
  next
    case (Some cur)
    with JObj show ?thesis by (simp add: rate_step_def split: json.splits)
  qed
qed (simp_all add: rate_step_def)

lemma rates_loop_no_KeyError: "rates_loop c items rates \<noteq> Inl KeyError"
proof (induction items arbitrary: rates)
  case Nil
  show ?case by simp
next
  case (Cons rate rest)
  show ?case
  proof (cases "rate_step c rate rates")
    case (Inl e)
    with rate_step_no_KeyError[of c rate rates] show ?thesis by auto
  next
    case (Inr mid)
    with Cons.IH[of mid] show ?thesis by simp
  qed
qed

lemma rate_step_no_currency:
  "map_of kvs ''currency'' = None \<Longrightarrow> rate_step c (JObj kvs) rates = Inr rates"
  by (simp add: rate_step_def)

lemma rates_loop_skip:
  assumes "map_of kvs ''currency'' = None"
  shows "rates_loop c (xs @ JObj kvs # ys) rates = rates_loop c (xs @ ys) rates"
proof (induction xs arbitrary: rates)
  case Nil
  show ?case by (simp add: rate_step_no_currency[OF assms])
next
  case (Cons x xs)
  show ?case by (cases "rate_step c x rates") (simp_all add: Cons.IH)
qed

lemma rate_step_dict: "is_dict rate \<Longrightarrow> \<exists>rates'. rate_step c rate rates = Inr rates'"
proof (cases rate)
  case (JObj kvs)
  show ?thesis
  proof (cases "map_of kvs ''currency''")
    case None
    with JObj show ?thesis by (simp add: rate_step_def)
  next
    case (Some cur)
    with JObj show ?thesis by (cases cur) (simp_all add: rate_step_def)
  qed
qed simp_all

lemma rates_loop_dicts: "list_all is_dict items \<Longrightarrow> \<exists>rates'. rates_loop c items rates = Inr rates'"
proof (induction items arbitrary: rates)
  case Nil
  show ?case by simp
next
  case (Cons rate rest)
  then have "is_dict rate" and rest: "list_all is_dict rest" by simp_all
  from rate_step_dict[OF this(1), of c rates] obtain mid where "rate_step c rate rates = Inr mid"
    by blast
  with Cons.IH[OF rest, of mid] show ?case by simp
qed

section \<open>The sample inputs, evaluated\<close>

lemmas date_defs = strftime_def civil_day_def civil_month_def civil_year_def march_month_def
  day_of_year_def year_of_era_def day_of_era_def pad2_def pad4_def digit_char_def

lemma sample_urls:
  "request_url 739922 = BASE_URL @ ''?date=03.11.2026''"
  "request_url 739921 = BASE_URL @ ''?date=02.11.2026''"
  "request_url 739920 = BASE_URL @ ''?date=01.11.2026''"
  by (simp_all add: request_url_def date_defs)

lemma sample_replies:
  "upstream sample_env (request_url 739922) = Response 200 (Inr sample_payload)"
  "upstream sample_env (request_url 739921) = Response 404 (Inl ContentTypeError)"
  "upstream sample_env (request_url 739920) = Failed ClientError"
  by (simp_all add: sample_urls sample_env_def sample_upstream_def)

lemma sample_rates:
  "rates_of sample_payload [''USD'', ''EUR''] =
     Inr [(''USD'', JObj [(''sale'', JNum 42), (''purchase'', JNum 41)]),
          (''EUR'', JObj [(''sale'', JNull), (''purchase'', JNum 47)])]"
  by (simp add: rates_of_def exchange_records_def sample_payload_def rate_step_def)

lemma sample_strftime: "strftime 739922 = ''03.11.2026''"
  by (simp add: date_defs)

lemma sample_fetches:
  "fst (fetch_rates sample_env 739922 [''USD'', ''EUR''] w) = Inr day0"
  "fst (fetch_rates sample_env 739921 [''USD'', ''EUR''] w) = Inr day1"
  "fst (fetch_rates sample_env 739920 [''USD'', ''EUR''] w) = Inl ClientError"
proof -
  show "fst (fetch_rates sample_env 739922 [''USD'', ''EUR''] w) = Inr day0"
    by (simp add: fetch_rates_ok[OF sample_replies(1)] sample_rates sample_strftime day0_def)
  show "fst (fetch_rates sample_env 739921 [''USD'', ''EUR''] w) = Inr day1"
    by (simp add: fetch_rates_status[OF sample_replies(2)] day1_def text_defs)
  show "fst (fetch_rates sample_env 739920 [''USD'', ''EUR''] w) = Inl ClientError"
    using sample_replies(3) by (simp add: fetch_rates_def request_url_def)
qed

lemma sample_parse:
  "parse_days ''exchange 2'' = Inr 2"
  "parse_days ''exchange 3'' = Inr 3"
  "parse_days ''exchange 11'' = Inr 11"
  "parse_days ''exchanges 0'' = Inr 0"
  "parse_days ''exchange'' = Inr 1"
  by (simp_all add: text_defs)

lemma two_items: "length xs = 2 \<Longrightarrow> xs = [xs ! 0, xs ! 1]"
  by (cases xs; cases "tl xs") auto

section \<open>The claims\<close>

text \<open>
  C1. For every \<open>days\<close> from 1 to 10, the command \<^verbatim>\<open>exchange <days>\<close> is answered with
  the serialised list of exactly \<open>days\<close> per-day results, the result at index \<open>i\<close> being what
  \<^verbatim>\<open>fetch_rates\<close> returns for the date \<open>i\<close> days before today, whatever the order in which
  the fetches finish. (Every fetch returns, and the dates exist; a fetch that raises is the
  subject of C8.)
\<close>

theorem exchange_results_in_request_order:
  assumes "1 \<le> days" and "days \<le> 10"
    and "nat days \<le> Suc (today E)"
    and "\<forall>i<nat days. \<exists>r. fst (fetch_rates E (today E - i) [''USD'', ''EUR''] w) = Inr r"
  shows "\<exists>results.
           length results = nat days \<and>
           (\<forall>i<nat days. fst (fetch_rates E (today E - i) [''USD'', ''EUR''] w) = Inr (results ! i)) \<and>
           (\<forall>order. handle_exchange (E\<lparr>completion := order\<rparr>) (''exchange '' @ py_str days) w =
              (w\<lparr>sent := sent w @ [dumps E (JArr results)],
                 log_file := log_file w @
                   [now E @ '' - '' @ (''exchange '' @ py_str days @ '': '' @ dumps E (JArr results))
                      @ [CHR 0x0A]],
                 requests := requests w @ map (\<lambda>i. request_url (today E - i)) [0..<nat days]\<rparr>,
               None))"
proof -
  from assms(4) obtain g where
    g: "\<forall>i<nat days. fst (fetch_rates E (today E - i) [''USD'', ''EUR''] w) = Inr (g i)"
    by metis
  let ?results = "map g [0..<nat days]"
  have len: "length ?results = nat days" by simp
  have nth: "\<forall>i<nat days. fst (fetch_rates E (today E - i) [''USD'', ''EUR''] w) = Inr (?results ! i)"
    using g by simp
  have run: "handle_exchange (E\<lparr>completion := order\<rparr>) (''exchange '' @ py_str days) w =
              (w\<lparr>sent := sent w @ [dumps E (JArr ?results)],
                 log_file := log_file w @
                   [now E @ '' - '' @ (''exchange '' @ py_str days @ '': '' @ dumps E (JArr ?results))
                      @ [CHR 0x0A]],
                 requests := requests w @ map (\<lambda>i. request_url (today E - i)) [0..<nat days]\<rparr>,
               None)" for order
  proof -
    have "\<forall>i<nat days.
            fst (fetch_rates (E\<lparr>completion := order\<rparr>) (today (E\<lparr>completion := order\<rparr>) - i)
                   [''USD'', ''EUR''] w) = Inr (g i)"
      using g by (simp add: fetch_rates_completion)
    from handle_exchange_results[OF parse_exchange_days[OF assms(1,2)] assms(1,2) _ this]
    show ?thesis using assms(3) by simp
  qed
  from len nth run show ?thesis by blast
qed

text \<open>Two days asked of the sample service, the fetches finishing in either order.\<close>

theorem exchange_results_in_request_order_witness:
  "handle_exchange (sample_env\<lparr>completion := [0, 1]\<rparr>) ''exchange 2'' fresh_world =
     (\<lparr>sent = [dumps sample_env (JArr [day0, day1])],
       log_file = [now sample_env @ '' - exchange 2: '' @ dumps sample_env (JArr [day0, day1]) @ [CHR 0x0A]],
       requests = [BASE_URL @ ''?date=03.11.2026'', BASE_URL @ ''?date=02.11.2026'']\<rparr>, None)
   \<and> handle_exchange (sample_env\<lparr>completion := [1, 0]\<rparr>) ''exchange 2'' fresh_world =
       handle_exchange (sample_env\<lparr>completion := [0, 1]\<rparr>) ''exchange 2'' fresh_world"
proof -
  have today: "today sample_env = 739922" by (simp add: sample_env_def)
  have fetched: "\<forall>i<nat 2. \<exists>r. fst (fetch_rates sample_env (today sample_env - i) [''USD'', ''EUR''] fresh_world) = Inr r"
  proof (intro allI impI)
    fix i :: nat
    assume "i < nat 2"
    then have "i = 0 \<or> i = 1" by auto
    then show "\<exists>r. fst (fetch_rates sample_env (today sample_env - i) [''USD'', ''EUR''] fresh_world) = Inr r"
      by (auto simp: today sample_fetches)
  qed
  have "nat 2 \<le> Suc (today sample_env)" by (simp add: today)
  from exchange_results_in_request_order[of 2 sample_env fresh_world, OF _ _ this fetched]
  obtain results where len: "length results = nat 2"
    and nth: "\<forall>i<nat 2. fst (fetch_rates sample_env (today sample_env - i) [''USD'', ''EUR''] fresh_world) = Inr (results ! i)"
    and run: "\<And>order. handle_exchange (sample_env\<lparr>completion := order\<rparr>) (''exchange '' @ py_str 2) fresh_world =
              (fresh_world\<lparr>sent := sent fresh_world @ [dumps sample_env (JArr results)],
                 log_file := log_file fresh_world @
                   [now sample_env @ '' - '' @ (''exchange '' @ py_str 2 @ '': '' @ dumps sample_env (JArr results))
                      @ [CHR 0x0A]],
                 requests := requests fresh_world @ map (\<lambda>i. request_url (today sample_env - i)) [0..<nat 2]\<rparr>,
               None)"
    by auto
  have "results ! 0 = day0"
    using nth[rule_format, of 0] by (simp add: today sample_fetches)
  moreover have "results ! 1 = day1"
    using nth[rule_format, of 1] by (simp add: today sample_fetches)
  ultimately have "results = [day0, day1]"
    using len two_items[of results] by simp
  note results = this
  have str: "py_str 2 = ''2''" by (simp add: text_defs)
  have upt: "[0..<nat 2] = [0, 1]" by (simp add: upt_rec)
  have urls: "map (\<lambda>i. request_url (today sample_env - i)) [0, 1]
      = [BASE_URL @ ''?date=03.11.2026'', BASE_URL @ ''?date=02.11.2026'']"
    by (simp add: today sample_urls)
  show ?thesis
    unfolding run[unfolded str upt urls results, simplified] by (simp add: fresh_world_def)
qed

text \<open>
  C2, as amended. A message that the loop reaches gets a response and a log entry exactly when it
  starts with the characters \<^verbatim>\<open>exchange\<close> and its handling raises no exception, and then
  it gets one of each; a message without that prefix changes nothing.
\<close>

theorem dispatch_by_prefix:
  assumes "handle_client before w0 = (w, None)"
    and "handle_client (before @ [(E, message)]) w0 = (w', r)"
  shows "((sent w' \<noteq> sent w \<or> log_file w' \<noteq> log_file w) \<longleftrightarrow>
            startswith message ''exchange'' \<and> r = None)
       \<and> (startswith message ''exchange'' \<and> r = None \<longrightarrow>
            (\<exists>frame line. sent w' = sent w @ [frame] \<and> log_file w' = log_file w @ [line]))
       \<and> (\<not> startswith message ''exchange'' \<longrightarrow> w' = w \<and> r = None)"
proof -
  from assms have one: "handle_client [(E, message)] w = (w', r)"
    by (simp add: handle_client_append)
  show ?thesis
  proof (cases "startswith message ''exchange''")
    case True
    with one have "handle_exchange E message w = (w', r)"
      by (auto split: prod.splits option.splits)
    from handle_exchange_effects[OF this] True show ?thesis
      by (cases r) auto
  next
    case False
    with one show ?thesis by auto
  qed
qed

text \<open>The sample connection receives \<^verbatim>\<open>hello\<close> and then \<^verbatim>\<open>exchanges 0\<close>.\<close>

theorem dispatch_by_prefix_witness:
  "handle_client [(sample_env, ''hello'')] fresh_world = (fresh_world, None)
   \<and> (\<exists>frame line.
         sent (fst (handle_client [(sample_env, ''hello''), (sample_env, ''exchanges 0'')] fresh_world)) = [frame]
       \<and> log_file (fst (handle_client [(sample_env, ''hello''), (sample_env, ''exchanges 0'')] fresh_world)) = [line])"
proof -
  have start: "handle_client [] fresh_world = (fresh_world, None)"
    by simp
  obtain w r where hello: "handle_client ([] @ [(sample_env, ''hello'')]) fresh_world = (w, r)"
    by (cases "handle_client ([] @ [(sample_env, ''hello'')]) fresh_world")
  have "\<not> startswith ''hello'' ''exchange''" by simp
  with dispatch_by_prefix[OF start hello] have ignored: "w = fresh_world \<and> r = None"
    by blast
  with hello have before: "handle_client [(sample_env, ''hello'')] fresh_world = (fresh_world, None)"
    by simp
  obtain w' r' where run:
    "handle_client ([(sample_env, ''hello'')] @ [(sample_env, ''exchanges 0'')]) fresh_world = (w', r')"
    by (cases "handle_client ([(sample_env, ''hello'')] @ [(sample_env, ''exchanges 0'')]) fresh_world")
  then have "r' = None"
    by (simp add: handle_exchange_invalid[OF sample_parse(4)])
  moreover have "startswith ''exchanges 0'' ''exchange''" by simp
  ultimately have "\<exists>frame line. sent w' = sent fresh_world @ [frame] \<and> log_file w' = log_file fresh_world @ [line]"
    using dispatch_by_prefix[OF before run] by blast
  with run before show ?thesis by (simp add: fresh_world_def)
qed

text \<open>
  C2 as stated fails in both directions: the first token of \<^verbatim>\<open>exchanges 0\<close> is not
  \<^verbatim>\<open>exchange\<close>, yet the message is answered and logged; the first token of
  \<^verbatim>\<open> exchange 2\<close> (with a leading blank) is \<^verbatim>\<open>exchange\<close>, yet the message is
  ignored.
\<close>

theorem dispatch_by_first_token_counterexample:
  "first_token ''exchanges 0'' \<noteq> Some ''exchange''
   \<and> handle_client [(sample_env, ''exchanges 0'')] fresh_world =
       (\<lparr>sent = [validation_error],
         log_file = [now sample_env @ '' - '' @ validation_error @ [CHR 0x0A]],
         requests = []\<rparr>, None)
   \<and> first_token '' exchange 2'' = Some ''exchange''
   \<and> handle_client [(sample_env, '' exchange 2'')] fresh_world = (fresh_world, None)"
proof -
  have "first_token ''exchanges 0'' \<noteq> Some ''exchange''"
    and "first_token '' exchange 2'' = Some ''exchange''"
    by (simp_all add: first_token_def text_defs)
  moreover have "handle_client [(sample_env, ''exchanges 0'')] fresh_world =
       (\<lparr>sent = [validation_error],
         log_file = [now sample_env @ '' - '' @ validation_error @ [CHR 0x0A]],
         requests = []\<rparr>, None)"
    by (simp add: handle_exchange_invalid[OF sample_parse(4)] fresh_world_def)
  moreover have "handle_client [(sample_env, '' exchange 2'')] fresh_world = (fresh_world, None)"
    by simp
  ultimately show ?thesis by simp
qed

text \<open>
  C3. When the day count parses to an integer below 1 or above 10, the handler sends the fixed
  error text as the only frame, writes that same text to the log, requests nothing from the
  upstream service and returns without any other effect.
\<close>

theorem invalid_days_rejected:
  assumes "parse_days message = Inr days" and "days < 1 \<or> days > 10"
  shows "handle_exchange E message w =
           (w\<lparr>sent := sent w @ [validation_error],
              log_file := log_file w @ [now E @ '' - '' @ validation_error @ [CHR 0x0A]]\<rparr>, None)
         \<and> requests (fst (handle_exchange E message w)) = requests w"
  using assms by (simp add: handle_exchange_invalid)

text \<open>The message \<^verbatim>\<open>exchange 11\<close>.\<close>

theorem invalid_days_rejected_witness:
  "parse_days ''exchange 11'' = Inr 11
   \<and> handle_exchange sample_env ''exchange 11'' fresh_world =
       (\<lparr>sent = [validation_error],
         log_file = [now sample_env @ '' - '' @ validation_error @ [CHR 0x0A]],
         requests = []\<rparr>, None)"
proof -
  have "(11::int) < 1 \<or> (11::int) > 10" by simp
  from invalid_days_rejected[OF sample_parse(3) this, of sample_env fresh_world] sample_parse(3)
  show ?thesis by (simp add: fresh_world_def)
qed

text \<open>
  C4. A message without a second token has the day count 1: exactly one fetch is made, for
  today, and the response, when the fetch returns, is the list of that one result.
\<close>

theorem missing_days_defaults_to_one:
  assumes "length (py_split message) \<le> 1"
  shows "parse_days message = Inr 1 \<and>
         handle_exchange E message w =
           (case fst (fetch_rates E (today E) [''USD'', ''EUR''] w) of
              Inl e \<Rightarrow> (w\<lparr>requests := requests w @ [request_url (today E)]\<rparr>, Some e)
            | Inr r \<Rightarrow>
                (w\<lparr>sent := sent w @ [dumps E (JArr [r])],
                   log_file := log_file w @
                     [now E @ '' - '' @ (''exchange '' @ py_str 1 @ '': '' @ dumps E (JArr [r])) @ [CHR 0x0A]],
                   requests := requests w @ [request_url (today E)]\<rparr>, None))"
proof -
  have days: "parse_days message = Inr 1"
    using assms by (simp add: parse_days_def)
  have one: "[0..<nat 1] = [0]" by (simp add: upt_rec)
  have "handle_exchange E message w =
     (case (case fst (fetch_rates E (today E) [''USD'', ''EUR''] w) of Inl e \<Rightarrow> Inl e | Inr r \<Rightarrow> Inr [r]) of
        Inl e \<Rightarrow> (w\<lparr>requests := requests w @ [request_url (today E)]\<rparr>, Some e)
      | Inr results \<Rightarrow>
          (w\<lparr>sent := sent w @ [dumps E (JArr results)],
             log_file := log_file w @
               [now E @ '' - '' @ (''exchange '' @ py_str 1 @ '': '' @ dumps E (JArr results)) @ [CHR 0x0A]],
             requests := requests w @ [request_url (today E)]\<rparr>, None))"
    using handle_exchange_fetches[OF days, of E w]
    unfolding one list.map diff_zero first_raised_single by simp
  with days show ?thesis by (simp split: sum.splits)
qed

text \<open>
  The message \<^verbatim>\<open>exchange\<close>, and the same followed by a blank and a no-break space,
  which has no second token either. With the no-break space between the command and a 2 there
  is a second token: the day count is 2 and two requests are made.
\<close>

theorem missing_days_defaults_to_one_witness:
  "py_split ''exchange'' = [''exchange'']
   \<and> handle_exchange sample_env ''exchange'' fresh_world =
       (\<lparr>sent = [dumps sample_env (JArr [day0])],
         log_file = [now sample_env @ '' - exchange 1: '' @ dumps sample_env (JArr [day0]) @ [CHR 0x0A]],
         requests = [BASE_URL @ ''?date=03.11.2026'']\<rparr>, None)
   \<and> py_split exchange_nbsp = [''exchange'']
   \<and> handle_exchange sample_env exchange_nbsp fresh_world =
       (\<lparr>sent = [dumps sample_env (JArr [day0])],
         log_file = [now sample_env @ '' - exchange 1: '' @ dumps sample_env (JArr [day0]) @ [CHR 0x0A]],
         requests = [BASE_URL @ ''?date=03.11.2026'']\<rparr>, None)
   \<and> py_split exchange_nbsp_2 = [''exchange'', ''2'']
   \<and> parse_days exchange_nbsp_2 = Inr 2
   \<and> requests (fst (handle_exchange sample_env exchange_nbsp_2 fresh_world)) =
       [BASE_URL @ ''?date=03.11.2026'', BASE_URL @ ''?date=02.11.2026'']"
proof -
  have today: "today sample_env = 739922" by (simp add: sample_env_def)
  have str: "py_str 1 = ''1''" by (simp add: text_defs)
  have tokens: "py_split ''exchange'' = [''exchange'']"
    by (simp add: text_defs)
  have tokens_nbsp: "py_split exchange_nbsp = [''exchange'']"
    by (simp add: exchange_nbsp_def text_defs)
  have tokens_2: "py_split exchange_nbsp_2 = [''exchange'', ''2'']"
    by (simp add: exchange_nbsp_2_def text_defs)
  have days_2: "parse_days exchange_nbsp_2 = Inr 2"
    by (simp add: exchange_nbsp_2_def text_defs)
  have one: "handle_exchange sample_env message fresh_world =
       (\<lparr>sent = [dumps sample_env (JArr [day0])],
         log_file = [now sample_env @ '' - exchange 1: '' @ dumps sample_env (JArr [day0]) @ [CHR 0x0A]],
         requests = [BASE_URL @ ''?date=03.11.2026'']\<rparr>, None)"
    if "length (py_split message) \<le> 1" for message
  proof -
    from missing_days_defaults_to_one[OF that, of sample_env fresh_world]
    have "handle_exchange sample_env message fresh_world =
         (fresh_world\<lparr>sent := sent fresh_world @ [dumps sample_env (JArr [day0])],
            log_file := log_file fresh_world @
              [now sample_env @ '' - '' @ (''exchange '' @ py_str 1 @ '': '' @ dumps sample_env (JArr [day0]))
                 @ [CHR 0x0A]],
            requests := requests fresh_world @ [request_url (today sample_env)]\<rparr>, None)"
      by (simp add: today sample_fetches)
    then show ?thesis
      unfolding str by (simp add: today sample_urls fresh_world_def)
  qed
  have upt: "[0..<nat 2] = [0, 1]" by (simp add: upt_rec)
  have "\<forall>i<nat 2. fst (fetch_rates sample_env (today sample_env - i) [''USD'', ''EUR''] fresh_world)
          = Inr ((\<lambda>i. if i = 0 then day0 else day1) i)"
    by (auto simp: today sample_fetches less_Suc_eq numeral_2_eq_2)
  from handle_exchange_results[OF days_2 _ _ _ this]
  have two: "requests (fst (handle_exchange sample_env exchange_nbsp_2 fresh_world)) =
       [BASE_URL @ ''?date=03.11.2026'', BASE_URL @ ''?date=02.11.2026'']"
    unfolding upt by (simp add: today sample_urls fresh_world_def)
  from tokens tokens_nbsp tokens_2 days_2 two one[of "''exchange''"] one[of exchange_nbsp]
  show ?thesis by simp
qed

text \<open>
  C5. When the upstream service answers with a status \<open>s\<close> other than 200,
  \<^verbatim>\<open>fetch_rates\<close> returns \<^verbatim>\<open>{"error": "HTTP Error <s>"}\<close> and does not raise; in a
  command that asks for this date, the value stands at the date's index of the response and the
  other indices hold what their own fetches returned.
\<close>

theorem http_error_is_a_day_result:
  assumes "upstream E (request_url d) = Response s body" and "s \<noteq> 200"
  shows "fetch_rates E d c w =
           (Inr (JObj [(''error'', JStr (''HTTP Error '' @ py_str s))]),
            w\<lparr>requests := requests w @ [request_url d]\<rparr>)
         \<and> (\<forall>message days j r.
               parse_days message = Inr days \<and> 1 \<le> days \<and> days \<le> 10 \<and> nat days \<le> Suc (today E) \<and>
               j < nat days \<and> d = today E - j \<and>
               (\<forall>i<nat days. i \<noteq> j \<longrightarrow> fst (fetch_rates E (today E - i) [''USD'', ''EUR''] w) = Inr (r i))
               \<longrightarrow>
               handle_exchange E message w =
                 (w\<lparr>sent := sent w @
                      [dumps E (JArr (map (\<lambda>i. if i = j
                                               then JObj [(''error'', JStr (''HTTP Error '' @ py_str s))]
                                               else r i) [0..<nat days]))],
                    log_file := log_file w @
                      [now E @ '' - '' @
                         (''exchange '' @ py_str days @ '': '' @
                          dumps E (JArr (map (\<lambda>i. if i = j
                                                   then JObj [(''error'', JStr (''HTTP Error '' @ py_str s))]
                                                   else r i) [0..<nat days])))
                         @ [CHR 0x0A]],
                    requests := requests w @ map (\<lambda>i. request_url (today E - i)) [0..<nat days]\<rparr>,
                  None))"
proof (intro conjI allI impI)
  show one: "fetch_rates E d c w =
           (Inr (JObj [(''error'', JStr (''HTTP Error '' @ py_str s))]),
            w\<lparr>requests := requests w @ [request_url d]\<rparr>)" for c
    by (rule fetch_rates_status[OF assms])
  fix message days j and r :: "nat \<Rightarrow> 'a json"
  let ?g = "\<lambda>i. if i = j then JObj [(''error'', JStr (''HTTP Error '' @ py_str s))] else r i"
  assume a: "parse_days message = Inr days \<and> 1 \<le> days \<and> days \<le> 10 \<and> nat days \<le> Suc (today E) \<and>
               j < nat days \<and> d = today E - j \<and>
               (\<forall>i<nat days. i \<noteq> j \<longrightarrow> fst (fetch_rates E (today E - i) [''USD'', ''EUR''] w) = Inr (r i))"
  then have "\<forall>i<nat days. fst (fetch_rates E (today E - i) [''USD'', ''EUR''] w) = Inr (?g i)"
    using one[of "[''USD'', ''EUR'']"] by auto
  with a show "handle_exchange E message w =
                 (w\<lparr>sent := sent w @ [dumps E (JArr (map ?g [0..<nat days]))],
                    log_file := log_file w @
                      [now E @ '' - '' @
                         (''exchange '' @ py_str days @ '': '' @ dumps E (JArr (map ?g [0..<nat days])))
                         @ [CHR 0x0A]],
                    requests := requests w @ map (\<lambda>i. request_url (today E - i)) [0..<nat days]\<rparr>,
                  None)"
    by (intro handle_exchange_results) auto
qed

text \<open>The sample service answers 404 for the second of two days.\<close>

theorem http_error_is_a_day_result_witness:
  "fst (fetch_rates sample_env 739921 [''USD'', ''EUR''] fresh_world) = Inr (JObj [(''error'', JStr ''HTTP Error 404'')])
   \<and> handle_exchange sample_env ''exchange 2'' fresh_world =
       (\<lparr>sent = [dumps sample_env (JArr [day0, JObj [(''error'', JStr ''HTTP Error 404'')]])],
         log_file = [now sample_env @ '' - exchange 2: '' @
                      dumps sample_env (JArr [day0, JObj [(''error'', JStr ''HTTP Error 404'')]]) @ [CHR 0x0A]],
         requests = [BASE_URL @ ''?date=03.11.2026'', BASE_URL @ ''?date=02.11.2026'']\<rparr>, None)"
proof -
  have today: "today sample_env = 739922" by (simp add: sample_env_def)
  have status: "(404::int) \<noteq> 200" by simp
  note c5 = http_error_is_a_day_result[OF sample_replies(2) status, of "[''USD'', ''EUR'']" fresh_world]
  have str: "py_str 404 = ''404''" "py_str 2 = ''2''" by (simp_all add: text_defs)
  have upt: "[0..<nat 2] = [0, 1]" by (simp add: upt_rec)
  have others: "\<forall>i<nat 2. i \<noteq> 1 \<longrightarrow>
      fst (fetch_rates sample_env (today sample_env - i) [''USD'', ''EUR''] fresh_world) = Inr ((\<lambda>i. day0) i)"
    by (auto simp: today sample_fetches less_Suc_eq numeral_2_eq_2)
  have "handle_exchange sample_env ''exchange 2'' fresh_world =
     (fresh_world\<lparr>sent := sent fresh_world @
          [dumps sample_env (JArr (map (\<lambda>i. if i = 1
                                   then JObj [(''error'', JStr (''HTTP Error '' @ py_str 404))]
                                   else day0) [0..<nat 2]))],
        log_file := log_file fresh_world @
          [now sample_env @ '' - '' @
             (''exchange '' @ py_str 2 @ '': '' @
              dumps sample_env (JArr (map (\<lambda>i. if i = 1
                                       then JObj [(''error'', JStr (''HTTP Error '' @ py_str 404))]
                                       else day0) [0..<nat 2])))
             @ [CHR 0x0A]],
        requests := requests fresh_world @ map (\<lambda>i. request_url (today sample_env - i)) [0..<nat 2]\<rparr>,
      None)"
    using others sample_parse(1) today
    by (intro c5[THEN conjunct2, rule_format, of "''exchange 2''" 2 1 "\<lambda>i. day0"]) simp
  then have "handle_exchange sample_env ''exchange 2'' fresh_world =
       (\<lparr>sent = [dumps sample_env (JArr [day0, JObj [(''error'', JStr ''HTTP Error 404'')]])],
         log_file = [now sample_env @ '' - exchange 2: '' @
                      dumps sample_env (JArr [day0, JObj [(''error'', JStr ''HTTP Error 404'')]]) @ [CHR 0x0A]],
         requests = [BASE_URL @ ''?date=03.11.2026'', BASE_URL @ ''?date=02.11.2026'']\<rparr>, None)"
    unfolding str upt by (simp add: today sample_urls fresh_world_def)
  moreover from c5 have "fst (fetch_rates sample_env 739921 [''USD'', ''EUR''] fresh_world)
      = Inr (JObj [(''error'', JStr ''HTTP Error 404'')])"
    by (simp add: str)
  ultimately show ?thesis by simp
qed

text \<open>
  C6. For a status 200 with a parsed document, every key of the rates dict that
  \<^verbatim>\<open>fetch_rates\<close> returns is a requested currency and the currency of a record of the
  document, and its value holds the \<^verbatim>\<open>saleRate\<close> and \<^verbatim>\<open>purchaseRate\<close> of such a
  record, \<^verbatim>\<open>None\<close> (not a number) standing for a field the record lacks.
\<close>

theorem rates_only_requested_currencies:
  assumes "upstream E (request_url d) = Response 200 (Inr data)"
    and "fst (fetch_rates E d c w) = Inr result"
  shows "\<exists>items rates.
           exchange_records data = Inr items \<and>
           result = JObj [(strftime d, JObj rates)] \<and>
           distinct (map fst rates) \<and>
           (\<forall>(k, v) \<in> set rates.
              k \<in> set c \<and>
              (\<exists>kvs. JObj kvs \<in> set items \<and> map_of kvs ''currency'' = Some (JStr k) \<and>
                 v = JObj [(''sale'', case map_of kvs ''saleRate'' of None \<Rightarrow> JNull | Some x \<Rightarrow> x),
                           (''purchase'', case map_of kvs ''purchaseRate'' of None \<Rightarrow> JNull | Some x \<Rightarrow> x)]))"
proof -
  from assms(2) fetch_rates_ok[OF assms(1), of c w] obtain rates where
    rates: "rates_of data c = Inr rates" and result: "result = JObj [(strftime d, JObj rates)]"
    by (auto split: sum.splits)
  from rates obtain items where
    items: "exchange_records data = Inr items" and loop: "rates_loop c items [] = Inr rates"
    by (auto simp: rates_of_def split: sum.splits)
  have "distinct (map fst rates)"
    using rates_loop_distinct[OF loop] by simp
  moreover have "\<forall>(k, v) \<in> set rates.
              k \<in> set c \<and>
              (\<exists>kvs. JObj kvs \<in> set items \<and> map_of kvs ''currency'' = Some (JStr k) \<and>
                 v = JObj [(''sale'', case map_of kvs ''saleRate'' of None \<Rightarrow> JNull | Some x \<Rightarrow> x),
                           (''purchase'', case map_of kvs ''purchaseRate'' of None \<Rightarrow> JNull | Some x \<Rightarrow> x)])"
    using rates_loop_sound[OF loop] by auto
  ultimately show ?thesis using items result by blast
qed

text \<open>The sample document has records for USD, GBP and EUR and one without a currency.\<close>

theorem rates_only_requested_currencies_witness:
  "fst (fetch_rates sample_env 739922 [''USD'', ''EUR''] fresh_world) =
     Inr (JObj [(''03.11.2026'',
                 JObj [(''USD'', JObj [(''sale'', JNum 42), (''purchase'', JNum 41)]),
                       (''EUR'', JObj [(''sale'', JNull), (''purchase'', JNum 47)])])])
   \<and> (\<exists>items rates. exchange_records sample_payload = Inr items \<and> length items = 4 \<and>
         day0 = JObj [(strftime 739922, JObj rates)] \<and> set (map fst rates) \<subseteq> {''USD'', ''EUR''})"
proof -
  have res: "fst (fetch_rates sample_env 739922 [''USD'', ''EUR''] fresh_world) = Inr day0"
    by (rule sample_fetches)
  from rates_only_requested_currencies[OF sample_replies(1) res] obtain items rates where
    items: "exchange_records sample_payload = Inr items"
    and day: "day0 = JObj [(strftime 739922, JObj rates)]"
    and only: "\<forall>(k, v) \<in> set rates. k \<in> set [''USD'', ''EUR'']"
    by fastforce
  from items have "length items = 4"
    by (auto simp: exchange_records_def sample_payload_def)
  moreover from only have "set (map fst rates) \<subseteq> {''USD'', ''EUR''}" by auto
  ultimately show ?thesis using res items day by (auto simp: day0_def)
qed

text \<open>
  C7. A message whose second token is not an integer literal makes \<^verbatim>\<open>int\<close> raise
  \<^verbatim>\<open>ValueError\<close>: the exception leaves \<^verbatim>\<open>handle_exchange\<close> and the loop of
  \<^verbatim>\<open>handle_client\<close>, nothing is sent and nothing is logged. The witness is the message
  \<^verbatim>\<open>exchange abc\<close>.
\<close>

theorem non_integer_days_raises:
  assumes "py_split message = parts" and "1 < length parts" and "py_int (parts ! 1) = Inl e"
  shows "e = ValueError \<and> handle_exchange E message w = (w, Some ValueError) \<and>
         (startswith message ''exchange'' \<longrightarrow>
            handle_client ((E, message) # rest) w = (w, Some ValueError))"
proof -
  have e: "e = ValueError" using assms(3) by (rule py_int_fault)
  have "parse_days message = Inl ValueError"
    using assms e by (simp add: parse_days_def)
  then have "handle_exchange E message w = (w, Some ValueError)"
    by (rule handle_exchange_parse_fault)
  with e show ?thesis by simp
qed

text \<open>The message \<^verbatim>\<open>exchange abc\<close>, followed on the connection by a message that is never handled.\<close>

theorem non_integer_days_raises_witness:
  "py_split ''exchange abc'' = [''exchange'', ''abc''] \<and> py_int ''abc'' = Inl ValueError
   \<and> handle_exchange sample_env ''exchange abc'' fresh_world = (fresh_world, Some ValueError)
   \<and> handle_client [(sample_env, ''exchange abc''), (sample_env, ''exchange 1'')] fresh_world
       = (fresh_world, Some ValueError)"
proof -
  have tokens: "py_split ''exchange abc'' = [''exchange'', ''abc'']"
    by (simp add: text_defs)
  have int: "py_int ([''exchange'', ''abc''] ! 1) = Inl ValueError"
    by (simp add: text_defs)
  have "1 < length [''exchange'', ''abc'']" by simp
  from non_integer_days_raises[OF tokens this int, of sample_env fresh_world "[(sample_env, ''exchange 1'')]"] tokens int
  show ?thesis by simp
qed



text \<open>
  C9. For a status other than 200 the value returned by \<^verbatim>\<open>fetch_rates\<close> is a dict whose
  only key is \<^verbatim>\<open>error\<close>; the formatted date is not a key of it, and the value is the
  same for every date that gets this status.
\<close>

theorem http_error_result_has_no_date_key:
  assumes "upstream E (request_url d) = Response s body" and "s \<noteq> 200"
  shows "\<exists>items. fst (fetch_rates E d c w) = Inr (JObj items) \<and>
           items = [(''error'', JStr (''HTTP Error '' @ py_str s))] \<and>
           map fst items = [''error''] \<and>
           map_of items (strftime d) = None \<and>
           (\<forall>d' body'. upstream E (request_url d') = Response s body' \<longrightarrow>
              fst (fetch_rates E d' c w) = Inr (JObj items))"
  using assms strftime_not_error[of d] by (simp add: fetch_rates_status)

text \<open>The service that answers 503, asked for 3 and for 2 November 2026.\<close>

theorem http_error_result_has_no_date_key_witness:
  "fst (fetch_rates unavailable_env 739922 [''USD'', ''EUR''] fresh_world) =
     Inr (JObj [(''error'', JStr ''HTTP Error 503'')])
   \<and> fst (fetch_rates unavailable_env 739921 [''USD'', ''EUR''] fresh_world) =
     Inr (JObj [(''error'', JStr ''HTTP Error 503'')])
   \<and> map_of [(''error'', JStr ''HTTP Error 503'' :: int json)] (strftime 739922) = None
   \<and> strftime 739922 = ''03.11.2026''"
proof -
  have status: "(503::int) \<noteq> 200" by simp
  have str: "py_str 503 = ''503''" by (simp add: text_defs)
  have reply: "upstream unavailable_env (request_url d) = Response 503 (Inl ContentTypeError)" for d
    by (simp add: unavailable_env_def unavailable_upstream_def)
  from http_error_result_has_no_date_key[OF reply status, of 739922 "[''USD'', ''EUR'']" fresh_world]
  obtain items where
    first: "fst (fetch_rates unavailable_env 739922 [''USD'', ''EUR''] fresh_world) = Inr (JObj items)"
    and items: "items = [(''error'', JStr (''HTTP Error '' @ py_str 503))]"
    and no_date: "map_of items (strftime 739922) = None"
    and any: "\<forall>d' body'. upstream unavailable_env (request_url d') = Response 503 body' \<longrightarrow>
                fst (fetch_rates unavailable_env d' [''USD'', ''EUR''] fresh_world) = Inr (JObj items)"
    by blast
  from any reply[of 739921]
  have second: "fst (fetch_rates unavailable_env 739921 [''USD'', ''EUR''] fresh_world) = Inr (JObj items)"
    by blast
  from items have items': "items = [(''error'', JStr ''HTTP Error 503'')]"
    by (simp add: str)
  from first second no_date sample_strftime show ?thesis
    unfolding items' by simp
qed

text \<open>
  C10. For a status 200 whose document is a JSON object, \<^verbatim>\<open>fetch_rates\<close> never raises
  \<^verbatim>\<open>KeyError\<close>; a document without the key \<^verbatim>\<open>exchangeRate\<close> gives the empty rates
  dict under the date; a record without the key \<^verbatim>\<open>currency\<close> is skipped (the result is
  that of the document without the record); and when every record is a JSON object, whatever its
  fields, \<^verbatim>\<open>fetch_rates\<close> returns.
\<close>

theorem fetch_rates_tolerates_missing_fields:
  assumes "upstream E (request_url d) = Response 200 (Inr (JObj doc))"
  shows "fst (fetch_rates E d c w) \<noteq> Inl KeyError
       \<and> (map_of doc ''exchangeRate'' = None \<longrightarrow>
            fst (fetch_rates E d c w) = Inr (JObj [(strftime d, JObj [])]))
       \<and> (\<forall>xs kvs ys E' doc'.
            map_of doc ''exchangeRate'' = Some (JArr (xs @ JObj kvs # ys)) \<and>
            map_of kvs ''currency'' = None \<and>
            upstream E' (request_url d) = Response 200 (Inr (JObj doc')) \<and>
            map_of doc' ''exchangeRate'' = Some (JArr (xs @ ys))
            \<longrightarrow> fst (fetch_rates E d c w) = fst (fetch_rates E' d c w))
       \<and> (\<forall>items. map_of doc ''exchangeRate'' = Some (JArr items) \<and> list_all is_dict items
            \<longrightarrow> (\<exists>rates. fst (fetch_rates E d c w) = Inr (JObj [(strftime d, JObj rates)])))"
proof (intro conjI allI impI)
  note ok = fetch_rates_ok[OF assms, of c w]
  have iter: "py_iter v \<noteq> Inl KeyError" for v :: "'a json"
    by (cases v) simp_all
  show "fst (fetch_rates E d c w) \<noteq> Inl KeyError"
    using rates_loop_no_KeyError[of c _ "[]"] iter
    by (auto simp: ok rates_of_def exchange_records_def split: sum.splits option.splits)
  show "fst (fetch_rates E d c w) = Inr (JObj [(strftime d, JObj [])])"
    if "map_of doc ''exchangeRate'' = None"
    using that by (simp add: ok rates_of_def exchange_records_def)
  show "fst (fetch_rates E d c w) = fst (fetch_rates E' d c w)"
    if "map_of doc ''exchangeRate'' = Some (JArr (xs @ JObj kvs # ys)) \<and>
        map_of kvs ''currency'' = None \<and>
        upstream E' (request_url d) = Response 200 (Inr (JObj doc')) \<and>
        map_of doc' ''exchangeRate'' = Some (JArr (xs @ ys))" for xs kvs ys E' doc'
  proof -
    from that have ok': "fst (fetch_rates E' d c w) =
           (case rates_of (JObj doc') c of
              Inl e \<Rightarrow> Inl e
            | Inr rates \<Rightarrow> Inr (JObj [(strftime d, JObj rates)]))"
      by (intro fetch_rates_ok) simp
    from that have "rates_of (JObj doc) c = rates_of (JObj doc') c"
      by (simp add: rates_of_def exchange_records_def rates_loop_skip)
    with ok ok' show ?thesis by simp
  qed
  show "\<exists>rates. fst (fetch_rates E d c w) = Inr (JObj [(strftime d, JObj rates)])"
    if "map_of doc ''exchangeRate'' = Some (JArr items) \<and> list_all is_dict items" for items
  proof -
    from that rates_loop_dicts[of items c "[]"] obtain rates where "rates_loop c items [] = Inr rates"
      by blast
    with that show ?thesis by (simp add: ok rates_of_def exchange_records_def)
  qed
qed

text \<open>The sample document, and the empty document that the sample service gives for 31 October 2026.\<close>

theorem fetch_rates_tolerates_missing_fields_witness:
  "fst (fetch_rates sample_env 739922 [''USD'', ''EUR''] fresh_world) = Inr day0
   \<and> fst (fetch_rates sample_env 739922 [''USD'', ''EUR''] fresh_world) \<noteq> Inl KeyError
   \<and> fst (fetch_rates sample_env 739919 [''USD'', ''EUR''] fresh_world) = Inr (JObj [(''31.10.2026'', JObj [])])
   \<and> fst (fetch_rates trimmed_env 739922 [''USD'', ''EUR''] fresh_world) =
       fst (fetch_rates sample_env 739922 [''USD'', ''EUR''] fresh_world)
   \<and> (\<exists>rates. fst (fetch_rates sample_env 739922 [''USD'', ''EUR''] fresh_world) =
                 Inr (JObj [(''03.11.2026'', JObj rates)]))"
proof -
  let ?usd = "JObj [(''baseCurrency'', JStr ''UAH''), (''currency'', JStr ''USD''),
                    (''saleRate'', JNum 42), (''purchaseRate'', JNum 41)] :: int json"
  let ?gbp = "JObj [(''baseCurrency'', JStr ''UAH''), (''currency'', JStr ''GBP''),
                    (''saleRate'', JNum 55), (''purchaseRate'', JNum 54)] :: int json"
  let ?eur = "JObj [(''baseCurrency'', JStr ''UAH''), (''currency'', JStr ''EUR''),
                    (''purchaseRate'', JNum 47)] :: int json"
  let ?bare = "[(''baseCurrency'', JStr ''UAH'')] :: (string \<times> int json) list"
  let ?doc = "[(''date'', JStr ''03.11.2026''), (''bank'', JStr ''PB''),
               (''exchangeRate'', JArr ([?usd, ?gbp] @ JObj ?bare # [?eur]))]"
  let ?doc' = "[(''date'', JStr ''03.11.2026''), (''bank'', JStr ''PB''),
                (''exchangeRate'', JArr ([?usd, ?gbp] @ [?eur]))]"
  have empty: "upstream sample_env (request_url 739919) = Response 200 (Inr (JObj []))"
    by (simp add: request_url_def date_defs sample_env_def sample_upstream_def)
  have date: "strftime 739919 = ''31.10.2026''" by (simp add: date_defs)
  have sample: "upstream sample_env (request_url 739922) = Response 200 (Inr (JObj ?doc))"
    using sample_replies(1) by (simp add: sample_payload_def)
  have trimmed: "upstream trimmed_env (request_url 739922) = Response 200 (Inr (JObj ?doc'))"
    by (simp add: trimmed_env_def trimmed_upstream_def trimmed_payload_def)
  note missing = fetch_rates_tolerates_missing_fields[OF empty, of "[''USD'', ''EUR'']" fresh_world]
  note full = fetch_rates_tolerates_missing_fields[OF sample, of "[''USD'', ''EUR'']" fresh_world]
  have c1: "fst (fetch_rates sample_env 739922 [''USD'', ''EUR''] fresh_world) = Inr day0"
    by (rule sample_fetches)
  from full
  have c2: "fst (fetch_rates sample_env 739922 [''USD'', ''EUR''] fresh_world) \<noteq> Inl KeyError"
    by simp
  from missing date
  have c3: "fst (fetch_rates sample_env 739919 [''USD'', ''EUR''] fresh_world) =
            Inr (JObj [(''31.10.2026'', JObj [])])"
    by simp
  have "fst (fetch_rates sample_env 739922 [''USD'', ''EUR''] fresh_world) =
        fst (fetch_rates trimmed_env 739922 [''USD'', ''EUR''] fresh_world)"
    using trimmed
    by (intro full[THEN conjunct2, THEN conjunct2, THEN conjunct1, rule_format,
                   of "[?usd, ?gbp]" ?bare "[?eur]" trimmed_env ?doc']) simp
  then have c4: "fst (fetch_rates trimmed_env 739922 [''USD'', ''EUR''] fresh_world) =
                 fst (fetch_rates sample_env 739922 [''USD'', ''EUR''] fresh_world)"
    by (rule sym)
  have "\<exists>rates. fst (fetch_rates sample_env 739922 [''USD'', ''EUR''] fresh_world) =
                 Inr (JObj [(strftime 739922, JObj rates)])"
    by (intro full[THEN conjunct2, THEN conjunct2, THEN conjunct2, rule_format,
                   of "[?usd, ?gbp] @ JObj ?bare # [?eur]"]) simp
  then have c5: "\<exists>rates. fst (fetch_rates sample_env 739922 [''USD'', ''EUR''] fresh_world) =
                          Inr (JObj [(''03.11.2026'', JObj rates)])"
    by (simp only: sample_strftime)
  from c1 c2 c3 c4 c5 show ?thesis by blast
qed

end
